theory Spec2Isabelle
  imports Complex_Main "HOL-Library.Sublist"
begin

section \<open>Routing server: geometry and estimation core\<close>

text \<open>
  A shallow embedding of \<^verbatim>\<open>servers/routing_server.py\<close> (class \<^verbatim>\<open>RoutingServer\<close>).

  Numbers: a Python \<^verbatim>\<open>float\<close> is modelled as a \<^typ>\<open>real\<close>, and the functions of
  the \<^verbatim>\<open>math\<close> module by the real functions they approximate. Arithmetic is
  exact: rounding error, underflow, signed zeros and NaN of IEEE doubles are outside
  the model. The finite range of doubles is modelled where the server's arithmetic can
  leave it, in the difference of two coordinates (\<open>float_overflow\<close>). Rounding can make
  the program raise where exact arithmetic does not (see \<open>calculate_distance\<close>), so
  the properties of a returned value are stated for the calls that return.

  Python's \<^verbatim>\<open>int\<close> is \<^typ>\<open>int\<close>, \<^verbatim>\<open>str\<close> is \<^typ>\<open>string\<close>. A leading underscore of a
  Python name is dropped, since an Isabelle name cannot start with one. The methods
  are \<^verbatim>\<open>async\<close> but never await anything, so each is a function of its arguments.
\<close>

subsection \<open>Python built-ins used by the server\<close>

text \<open>
  The exceptions the modelled code can raise: \<^verbatim>\<open>math.sqrt\<close> raises \<^verbatim>\<open>ValueError\<close> on a
  negative argument and \<^verbatim>\<open>math.sin\<close> on an infinite one, and arithmetic on a value
  that is not a number raises \<^verbatim>\<open>TypeError\<close>.
\<close>

datatype py_error = ValueError | TypeError

text \<open>
  \<^verbatim>\<open>round(x)\<close> on a float returns the nearest \<^verbatim>\<open>int\<close>, and a value half-way between
  two integers goes to the even one. \<^verbatim>\<open>round(x, n)\<close> does the same at the \<open>n\<close>-th
  decimal and returns a float.
\<close>

definition py_round :: "real \<Rightarrow> int" where
  "py_round x =
     (let f = \<lfloor>x\<rfloor>; r = x - of_int f
      in if r < 1 / 2 then f
         else if 1 / 2 < r then f + 1
         else if even f then f else f + 1)"

definition py_round_nd :: "real \<Rightarrow> nat \<Rightarrow> real" where
  "py_round_nd x ndigits = of_int (py_round (x * 10 ^ ndigits)) / 10 ^ ndigits"

text \<open>
  Float \<^verbatim>\<open>x % m\<close> and \<^verbatim>\<open>x // m\<close> (floored; the server only divides by the positive
  constants 360 and 60), and \<^verbatim>\<open>int(x)\<close>, which truncates towards zero.
\<close>

definition py_mod :: "real \<Rightarrow> real \<Rightarrow> real" where
  "py_mod x m = x - m * of_int \<lfloor>x / m\<rfloor>"



text \<open>\<^verbatim>\<open>d.get(k, default)\<close> on a dictionary.\<close>

definition dict_get :: "('k \<rightharpoonup> 'v) \<Rightarrow> 'k \<Rightarrow> 'v \<Rightarrow> 'v" where
  "dict_get d k dflt = (case d k of None \<Rightarrow> dflt | Some v \<Rightarrow> v)"




subsection \<open>The \<^verbatim>\<open>math\<close> module\<close>

text \<open>
  \<^verbatim>\<open>radians\<close> and \<^verbatim>\<open>degrees\<close> multiply by \<open>pi / 180\<close> and \<open>180 / pi\<close>. \<^verbatim>\<open>atan2(y, x)\<close>
  is the angle of the point \<open>(x, y)\<close> in \<open>(-pi, pi]\<close>, with \<^verbatim>\<open>atan2(0, 0) = 0\<close>.
\<close>

definition radians :: "real \<Rightarrow> real" where
  "radians x = x * (pi / 180)"

definition degrees :: "real \<Rightarrow> real" where
  "degrees x = x * (180 / pi)"

text \<open>
  A finite double is below \<open>2 ^ 1024\<close> in magnitude. The difference of two doubles is
  rounded to an infinity when its exact value reaches \<open>2 ^ 1024 - 2 ^ 970\<close> in magnitude
  (for example \<^verbatim>\<open>1e308 - (-1e308)\<close>). \<^verbatim>\<open>radians\<close> and a division by 2 keep an
  infinity, and \<^verbatim>\<open>math.sin\<close> raises \<^verbatim>\<open>ValueError\<close> on it.
\<close>

definition float_overflow :: "real \<Rightarrow> bool" where
  "float_overflow x \<longleftrightarrow> 2 ^ 1024 - 2 ^ 970 \<le> \<bar>x\<bar>"

definition py_sqrt :: "real \<Rightarrow> py_error + real" where
  "py_sqrt x = (if x < 0 then Inl ValueError else Inr (sqrt x))"

definition atan2 :: "real \<Rightarrow> real \<Rightarrow> real" where
  "atan2 y x =
     (if 0 < x then arctan (y / x)
      else if x < 0 then (if 0 \<le> y then arctan (y / x) + pi else arctan (y / x) - pi)
      else if 0 < y then pi / 2
      else if y < 0 then - (pi / 2)
      else 0)"

subsection \<open>Great-circle distance\<close>

text \<open>
  \<^verbatim>\<open>
  def _calculate_distance(self, lat1, lon1, lat2, lon2) -> float:
      R = self.earth_radius_km
      lat1_rad = radians(lat1)
      lat2_rad = radians(lat2)
      delta_lat = radians(lat2 - lat1)
      delta_lon = radians(lon2 - lon1)
      a = sin(delta_lat / 2) ** 2 + cos(lat1_rad) * cos(lat2_rad) * sin(delta_lon / 2) ** 2
      c = 2 * atan2(sqrt(a), sqrt(1 - a))
      return R * c
  \<close>
  The quantity \<^verbatim>\<open>a\<close> is named \<open>haversine_a\<close>, so that lemmas can speak about it. The
  function can raise in two ways. When \<^verbatim>\<open>lat2 - lat1\<close> or \<^verbatim>\<open>lon2 - lon1\<close> overflows,
  \<^verbatim>\<open>sin(delta_lat / 2)\<close> or \<^verbatim>\<open>sin(delta_lon / 2)\<close> raises \<^verbatim>\<open>ValueError\<close>. And
  \<^verbatim>\<open>sqrt\<close> raises \<^verbatim>\<open>ValueError\<close> on a negative argument: in exact arithmetic \<^verbatim>\<open>a\<close> lies
  in \<open>[0, 1]\<close> (lemma \<open>haversine_a_range\<close>) and this branch is not taken, whereas in
  doubles rounding can push \<^verbatim>\<open>a\<close> above 1 for points that are nearly antipodal, and
  the program raises there.
\<close>

definition earth_radius_km :: real where
  "earth_radius_km = 6371"

definition haversine_a :: "real \<Rightarrow> real \<Rightarrow> real \<Rightarrow> real \<Rightarrow> real" where
  "haversine_a lat1 lon1 lat2 lon2 =
     (let lat1_rad = radians lat1;
          lat2_rad = radians lat2;
          delta_lat = radians (lat2 - lat1);
          delta_lon = radians (lon2 - lon1)
      in (sin (delta_lat / 2))\<^sup>2 + cos lat1_rad * cos lat2_rad * (sin (delta_lon / 2))\<^sup>2)"

definition calculate_distance :: "real \<Rightarrow> real \<Rightarrow> real \<Rightarrow> real \<Rightarrow> py_error + real" where
  "calculate_distance lat1 lon1 lat2 lon2 =
     (if float_overflow (lat2 - lat1) \<or> float_overflow (lon2 - lon1) then Inl ValueError
      else
        let R = earth_radius_km;
            a = haversine_a lat1 lon1 lat2 lon2
        in case py_sqrt a of
             Inl e \<Rightarrow> Inl e
           | Inr sa \<Rightarrow>
               (case py_sqrt (1 - a) of
                  Inl e \<Rightarrow> Inl e
                | Inr sb \<Rightarrow> let c = 2 * atan2 sa sb in Inr (R * c)))"

subsection \<open>Initial bearing\<close>

text \<open>
  \<^verbatim>\<open>
  def _calculate_bearing(self, lat1, lon1, lat2, lon2) -> float:
      lat1_rad = radians(lat1)
      lat2_rad = radians(lat2)
      delta_lon = radians(lon2 - lon1)
      x = sin(delta_lon) * cos(lat2_rad)
      y = cos(lat1_rad) * sin(lat2_rad) - sin(lat1_rad) * cos(lat2_rad) * cos(delta_lon)
      bearing = atan2(x, y)
      bearing_degrees = (degrees(bearing) + 360) % 360
      return bearing_degrees
  \<close>
  When \<^verbatim>\<open>lon2 - lon1\<close> overflows, \<^verbatim>\<open>sin(delta_lon)\<close> raises \<^verbatim>\<open>ValueError\<close>; nothing
  else in the function can raise.
\<close>

definition calculate_bearing :: "real \<Rightarrow> real \<Rightarrow> real \<Rightarrow> real \<Rightarrow> py_error + real" where
  "calculate_bearing lat1 lon1 lat2 lon2 =
     (if float_overflow (lon2 - lon1) then Inl ValueError
      else
        let lat1_rad = radians lat1;
            lat2_rad = radians lat2;
            delta_lon = radians (lon2 - lon1);
            x = sin delta_lon * cos lat2_rad;
            y = cos lat1_rad * sin lat2_rad - sin lat1_rad * cos lat2_rad * cos delta_lon;
            bearing_rad = atan2 x y;
            bearing_degrees = py_mod (degrees bearing_rad + 360) 360
        in Inr bearing_degrees)"

subsection \<open>Bearing to compass label\<close>

text \<open>
  \<^verbatim>\<open>
  def _bearing_to_direction(self, bearing: float) -> str:
      directions = ['North', 'Northeast', 'East', 'Southeast', 'South', 'Southwest', 'West', 'Northwest']
      index = round(bearing / 45) % 8
      return directions[index]
  \<close>
  Python's \<^verbatim>\<open>%\<close> with a positive right operand gives a result in \<open>0..7\<close>, as \<open>mod\<close> on
  \<^typ>\<open>int\<close> does, so the list access is always in range (lemma \<open>direction_index_range\<close>).
\<close>

definition directions :: "string list" where
  "directions = [''North'', ''Northeast'', ''East'', ''Southeast'',
                 ''South'', ''Southwest'', ''West'', ''Northwest'']"

definition direction_index :: "real \<Rightarrow> int" where
  "direction_index bearing_deg = py_round (bearing_deg / 45) mod 8"

definition bearing_to_direction :: "real \<Rightarrow> string" where
  "bearing_to_direction bearing_deg = directions ! nat (direction_index bearing_deg)"

subsection \<open>Route estimate\<close>








subsection \<open>Distance matrix\<close>








subsection \<open>Proximity filter\<close>

text \<open>
  A candidate location is a dictionary with string keys and values of any type. The
  values that matter here are \<^verbatim>\<open>None\<close>, numbers and strings; a string stands for every
  value that is neither \<^verbatim>\<open>None\<close> nor a number.
\<close>

datatype pyval = PyNone | PyNum real | PyStr string

type_synonym location = "string \<rightharpoonup> pyval"

definition to_float :: "pyval \<Rightarrow> py_error + real" where
  "to_float v = (case v of PyNum r \<Rightarrow> Inr r | _ \<Rightarrow> Inl TypeError)"

text \<open>
  The body of the loop for a location whose two coordinates are not \<^verbatim>\<open>None\<close>: the
  result \<open>None\<close> stands for a location that is farther than the radius and is not
  appended.
  \<^verbatim>\<open>
  distance = self._calculate_distance(center_lat, center_lon, lat, lon)
  if distance <= radius_km:
      bearing = self._calculate_bearing(center_lat, center_lon, lat, lon)
      direction = self._bearing_to_direction(bearing)
      result = {**location, 'distance_km': round(distance, 2),
                'bearing': round(bearing, 1), 'direction': direction}
      nearby.append(result)
  \<close>
\<close>

definition nearby_entry :: "real \<Rightarrow> real \<Rightarrow> location \<Rightarrow> real \<Rightarrow> real \<Rightarrow> real \<Rightarrow> py_error + location option" where
  "nearby_entry center_lat center_lon loc lat lon radius_km =
     (case calculate_distance center_lat center_lon lat lon of
        Inl e \<Rightarrow> Inl e
      | Inr distance \<Rightarrow>
          if distance \<le> radius_km then
            (case calculate_bearing center_lat center_lon lat lon of
               Inl e \<Rightarrow> Inl e
             | Inr bearing_deg \<Rightarrow>
                 let direction_label = bearing_to_direction bearing_deg
                 in Inr (Some (loc(''distance_km'' \<mapsto> PyNum (py_round_nd distance 2),
                                   ''bearing'' \<mapsto> PyNum (py_round_nd bearing_deg 1),
                                   ''direction'' \<mapsto> PyStr direction_label))))
          else Inr None)"

text \<open>
  The loop \<^verbatim>\<open>for location in locations\<close>, which builds the list \<^verbatim>\<open>nearby\<close> in the
  order of the input:
  \<^verbatim>\<open>
  lat = location.get('latitude')
  lon = location.get('longitude')
  if lat is None or lon is None:
      continue
  \<close>
\<close>

fun collect_nearby :: "real \<Rightarrow> real \<Rightarrow> location list \<Rightarrow> real \<Rightarrow> py_error + location list" where
  "collect_nearby center_lat center_lon [] radius_km = Inr []"
| "collect_nearby center_lat center_lon (loc # locs) radius_km =
     (let lat = dict_get loc ''latitude'' PyNone;
          lon = dict_get loc ''longitude'' PyNone
      in if lat = PyNone \<or> lon = PyNone
         then collect_nearby center_lat center_lon locs radius_km
         else
           (case to_float lat of
              Inl e \<Rightarrow> Inl e
            | Inr lat_deg \<Rightarrow>
                (case to_float lon of
                   Inl e \<Rightarrow> Inl e
                 | Inr lon_deg \<Rightarrow>
                     (case nearby_entry center_lat center_lon loc lat_deg lon_deg radius_km of
                        Inl e \<Rightarrow> Inl e
                      | Inr entry \<Rightarrow>
                          (case collect_nearby center_lat center_lon locs radius_km of
                             Inl e \<Rightarrow> Inl e
                           | Inr nearby \<Rightarrow>
                               Inr (case entry of None \<Rightarrow> nearby | Some r \<Rightarrow> r # nearby))))))"

text \<open>
  The sort key \<^verbatim>\<open>lambda x: x['distance_km']\<close>. Every element of \<^verbatim>\<open>nearby\<close> carries a
  number under that key (lemma \<open>collect_nearby_keys\<close>), so the other cases are never
  reached. \<^verbatim>\<open>list.sort\<close> is stable, as \<open>sort_key\<close> is.
\<close>

definition distance_key :: "location \<Rightarrow> real" where
  "distance_key r = (case r ''distance_km'' of Some (PyNum d) \<Rightarrow> d | _ \<Rightarrow> 0)"

definition find_nearby :: "real \<Rightarrow> real \<Rightarrow> location list \<Rightarrow> real \<Rightarrow> py_error + location list" where
  "find_nearby center_lat center_lon locations radius_km =
     (case collect_nearby center_lat center_lon locations radius_km of
        Inl e \<Rightarrow> Inl e
      | Inr nearby \<Rightarrow> Inr (sort_key distance_key nearby))"

text \<open>
  Two notions used to state properties of the filter. A location has coordinates when
  the guard \<^verbatim>\<open>lat is None or lon is None\<close> of the loop does not skip it: a missing key
  and a key bound to \<^verbatim>\<open>None\<close> are both skipped. \<open>attach\<close> is the dictionary
  \<^verbatim>\<open>{**location, 'distance_km': ..., 'bearing': ..., 'direction': ...}\<close> that
  \<open>nearby_entry\<close> builds from the distance and the bearing (lemma \<open>nearby_entry_cases\<close>).
\<close>

definition has_coordinates :: "location \<Rightarrow> bool" where
  "has_coordinates loc \<longleftrightarrow>
     dict_get loc ''latitude'' PyNone \<noteq> PyNone \<and> dict_get loc ''longitude'' PyNone \<noteq> PyNone"

definition attach :: "location \<Rightarrow> real \<Rightarrow> real \<Rightarrow> location" where
  "attach loc d b = loc(''distance_km'' \<mapsto> PyNum (py_round_nd d 2),
                        ''bearing'' \<mapsto> PyNum (py_round_nd b 1),
                        ''direction'' \<mapsto> PyStr (bearing_to_direction b))"

section \<open>Properties\<close>

subsection \<open>The direction quantizer\<close>

lemma length_directions: "length directions = 8"
  by (simp add: directions_def)

lemma direction_index_range: "0 \<le> direction_index b \<and> direction_index b < 8"
  by (simp add: direction_index_def)

lemma py_round_of_int: "py_round (of_int k) = k"
  by (simp add: py_round_def)

lemma py_round_half_even: "even k \<Longrightarrow> py_round (of_int k + 1 / 2) = k"
  by (simp add: py_round_def Let_def)

lemma py_round_half_odd: "odd k \<Longrightarrow> py_round (of_int k + 1 / 2) = k + 1"
  by (simp add: py_round_def Let_def)


text \<open>
  Claim C10. At a bearing exactly half-way between two labels the quantizer rounds half
  to even: 22.5 gives index 0 (North, the lower label) while 67.5 gives index 2 (East,
  the upper label), so neighbouring half-way points alternate between rounding down
  and rounding up.
\<close>

theorem direction_label_half_even:
  "py_round (22.5 / 45) = 0 \<and> bearing_to_direction 22.5 = ''North''
   \<and> py_round (67.5 / 45) = 2 \<and> bearing_to_direction 67.5 = ''East''
   \<and> py_round (112.5 / 45) = 2 \<and> py_round (157.5 / 45) = 4"
  by (simp add: bearing_to_direction_def direction_index_def py_round_def directions_def)

subsection \<open>Overflow of a coordinate difference\<close>

lemma float_overflow_diff_sym: "float_overflow (x - y) = float_overflow (y - x)"
  by (simp add: float_overflow_def abs_minus_commute)

lemma float_overflow_bound: "\<bar>x\<bar> \<le> 1000 \<Longrightarrow> \<not> float_overflow x"
proof -
  have "(1000 :: real) < 2 ^ 1024 - 2 ^ 970" by simp
  then show "\<bar>x\<bar> \<le> 1000 \<Longrightarrow> \<not> float_overflow x"
    unfolding float_overflow_def by linarith
qed

lemma float_overflow_zero: "\<not> float_overflow 0"
  by (simp add: float_overflow_bound)

subsection \<open>Great-circle distance\<close>

lemma radians_diff: "radians (x - y) = radians x - radians y"
  by (simp add: radians_def left_diff_distrib)

lemma radians_zero: "radians 0 = 0"
  by (simp add: radians_def)

lemma sin_half_sq: "(sin (t / 2))\<^sup>2 = (1 - cos (t::real)) / 2"
  using cos_double_sin [of "t / 2"] by simp

lemma haversine_a_dot:
  "haversine_a lat1 lon1 lat2 lon2 =
     (1 - (sin (radians lat1) * sin (radians lat2)
           + cos (radians lat1) * cos (radians lat2) * cos (radians (lon2 - lon1)))) / 2"
  unfolding haversine_a_def Let_def sin_half_sq radians_diff [of lat2 lat1] cos_diff
  by (simp add: field_simps)

lemma dot_le_one:
  assumes "- 1 \<le> k" "k \<le> (1::real)"
  shows "sin p * sin q + cos p * cos q * k \<le> 1"
proof -
  have e: "1 - (sin p * sin q + cos p * cos q * k)
        = (1 + k) / 2 * (1 - cos (p - q)) + (1 - k) / 2 * (1 + cos (p + q))"
    by (simp add: cos_diff cos_add field_simps)
  have "0 \<le> (1 + k) / 2 * (1 - cos (p - q))"
    using assms by (intro mult_nonneg_nonneg) simp_all
  moreover have "0 \<le> 1 + cos (p + q)"
    using cos_ge_minus_one [of "p + q"] by linarith
  then have "0 \<le> (1 - k) / 2 * (1 + cos (p + q))"
    using assms by (intro mult_nonneg_nonneg) simp_all
  ultimately show ?thesis using e by linarith
qed

lemma dot_ge_minus_one:
  assumes "- 1 \<le> k" "k \<le> (1::real)"
  shows "- 1 \<le> sin p * sin q + cos p * cos q * k"
proof -
  have e: "1 + (sin p * sin q + cos p * cos q * k)
        = (1 + k) / 2 * (1 + cos (p - q)) + (1 - k) / 2 * (1 - cos (p + q))"
    by (simp add: cos_diff cos_add field_simps)
  have "0 \<le> 1 + cos (p - q)"
    using cos_ge_minus_one [of "p - q"] by linarith
  then have "0 \<le> (1 + k) / 2 * (1 + cos (p - q))"
    using assms by (intro mult_nonneg_nonneg) simp_all
  moreover have "0 \<le> (1 - k) / 2 * (1 - cos (p + q))"
    using assms by (intro mult_nonneg_nonneg) simp_all
  ultimately show ?thesis using e by linarith
qed

lemma haversine_a_range:
  "0 \<le> haversine_a lat1 lon1 lat2 lon2 \<and> haversine_a lat1 lon1 lat2 lon2 \<le> 1"
  using dot_le_one [of "cos (radians (lon2 - lon1))" "radians lat1" "radians lat2"]
        dot_ge_minus_one [of "cos (radians (lon2 - lon1))" "radians lat1" "radians lat2"]
  by (simp add: haversine_a_dot)

lemma calculate_distance_cases:
  "calculate_distance lat1 lon1 lat2 lon2 =
     (if float_overflow (lat2 - lat1) \<or> float_overflow (lon2 - lon1) then Inl ValueError
      else Inr (earth_radius_km * (2 * atan2 (sqrt (haversine_a lat1 lon1 lat2 lon2))
                                             (sqrt (1 - haversine_a lat1 lon1 lat2 lon2)))))"
  using haversine_a_range [of lat1 lon1 lat2 lon2]
  by (simp add: calculate_distance_def py_sqrt_def Let_def)

lemma calculate_distance_Inl:
  "calculate_distance lat1 lon1 lat2 lon2 = Inl e \<Longrightarrow>
     e = ValueError \<and> (float_overflow (lat2 - lat1) \<or> float_overflow (lon2 - lon1))"
  by (auto simp: calculate_distance_cases split: if_splits)




lemma atan2_zero: "0 \<le> x \<Longrightarrow> atan2 0 x = 0"
  by (simp add: atan2_def)

lemma atan2_range: "- pi < atan2 y x \<and> atan2 y x \<le> pi"
proof -
  have b: "- (pi / 2) < arctan (y / x) \<and> arctan (y / x) < pi / 2"
    by (rule arctan_bounded)
  have neg: "x < 0 \<Longrightarrow> 0 \<le> y \<Longrightarrow> arctan (y / x) \<le> 0"
    by (simp add: divide_nonneg_neg)
  have pos: "x < 0 \<Longrightarrow> y < 0 \<Longrightarrow> 0 < arctan (y / x)"
    by (simp add: divide_neg_neg)
  show ?thesis
    using b neg pos pi_gt_zero by (auto simp: atan2_def)
qed

lemma cos_radians_diff: "cos (radians (x - y)) = cos (radians (y - x))"
proof -
  have "radians (x - y) = - radians (y - x)"
    by (simp add: radians_diff)
  then show ?thesis by simp
qed

lemma haversine_a_sym: "haversine_a lat2 lon2 lat1 lon1 = haversine_a lat1 lon1 lat2 lon2"
  by (simp add: haversine_a_dot cos_radians_diff [of lon1 lon2] mult.commute)

lemma haversine_a_same: "haversine_a lat lon lat lon = 0"
  by (simp add: haversine_a_def radians_def)

lemma calculate_distance_same: "calculate_distance lat lon lat lon = Inr 0"
  by (simp add: calculate_distance_cases float_overflow_zero haversine_a_same atan2_zero)


text \<open>
  Claim C1. The great-circle distance is symmetric: the call with the two points
  exchanged has the same result, be it a number or an exception. The distance from a
  point to itself is exactly 0.
\<close>

theorem distance_symmetric_zero:
  "calculate_distance lat1 lon1 lat2 lon2 = calculate_distance lat2 lon2 lat1 lon1
   \<and> calculate_distance lat1 lon1 lat1 lon1 = Inr 0"
  by (simp add: calculate_distance_def Let_def haversine_a_sym [of lat1 lon1 lat2 lon2]
        float_overflow_diff_sym [of lat1 lat2] float_overflow_diff_sym [of lon1 lon2]
        float_overflow_zero haversine_a_same py_sqrt_def atan2_zero)

subsection \<open>Sign of the distance\<close>

lemma radians_mono: "x \<le> y \<Longrightarrow> radians x \<le> radians y"
  by (simp add: radians_def)

lemma radians_strict_mono: "x < y \<Longrightarrow> radians x < radians y"
  by (simp add: radians_def)

lemma radians_eq_zero_iff: "radians x = 0 \<longleftrightarrow> x = 0"
  by (simp add: radians_def)

lemma radians_values:
  "radians 90 = pi / 2" "radians (- 90) = - (pi / 2)"
  "radians 180 = pi" "radians (- 180) = - pi"
  "radians 360 = 2 * pi" "radians (- 360) = - (2 * pi)"
  by (simp_all add: radians_def)


lemma pi_ge_three: "3 \<le> pi"
proof -
  have "sin (pi / 6) \<le> pi / 6"
    by (rule sin_x_le_x) simp
  then show ?thesis by (simp add: sin_30)
qed

lemma calculate_distance_equator:
  assumes "0 \<le> lon" "lon < 180"
  shows "calculate_distance 0 0 0 lon = Inr (earth_radius_km * radians lon)"
proof -
  let ?t = "radians lon / 2"
  have t: "0 \<le> ?t" "?t < pi / 2"
    using assms radians_mono [of 0 lon] radians_strict_mono [of lon 180]
    by (simp_all add: radians_values radians_zero)
  have a: "haversine_a 0 0 0 lon = (sin ?t)\<^sup>2"
    by (simp add: haversine_a_def radians_zero)
  have s: "0 \<le> sin ?t" using t pi_gt_zero by (intro sin_ge_zero) linarith+
  have c: "0 < cos ?t" using t by (intro cos_gt_zero_pi) linarith+
  have sa: "sqrt (haversine_a 0 0 0 lon) = sin ?t"
    using s by (simp add: a)
  have "1 - haversine_a 0 0 0 lon = (cos ?t)\<^sup>2"
    by (simp add: a cos_squared_eq)
  then have sb: "sqrt (1 - haversine_a 0 0 0 lon) = cos ?t"
    using c by simp
  have "atan2 (sin ?t) (cos ?t) = arctan (tan ?t)"
    using c by (simp add: atan2_def tan_def)
  also have "\<dots> = ?t"
    using t by (intro arctan_tan) linarith+
  finally show ?thesis
    using assms by (simp add: calculate_distance_cases float_overflow_bound sa sb)
qed





subsection \<open>Bearing\<close>


lemma py_mod_360_360: "py_mod 360 360 = 0"
  by (simp add: py_mod_def)

lemma calculate_bearing_cases:
  "calculate_bearing lat1 lon1 lat2 lon2 =
     (if float_overflow (lon2 - lon1) then Inl ValueError
      else Inr (py_mod (degrees (atan2 (sin (radians (lon2 - lon1)) * cos (radians lat2))
                  (cos (radians lat1) * sin (radians lat2)
                   - sin (radians lat1) * cos (radians lat2) * cos (radians (lon2 - lon1))))
                + 360) 360))"
  by (simp add: calculate_bearing_def Let_def)

lemma calculate_bearing_same: "calculate_bearing lat lon lat lon = Inr 0"
proof -
  have x: "sin (radians (lon - lon)) * cos (radians lat) = 0"
    by (simp add: radians_zero)
  have y: "cos (radians lat) * sin (radians lat)
           - sin (radians lat) * cos (radians lat) * cos (radians (lon - lon)) = 0"
    by (simp add: radians_zero)
  have "atan2 0 0 = 0" by (simp add: atan2_def)
  then show ?thesis
    unfolding calculate_bearing_cases x y
    by (simp add: degrees_def py_mod_360_360 float_overflow_zero)
qed



lemma bearing_of_distance:
  "calculate_distance lat1 lon1 lat2 lon2 = Inr d \<Longrightarrow>
     \<exists>b. calculate_bearing lat1 lon1 lat2 lon2 = Inr b"
  by (auto simp: calculate_distance_cases calculate_bearing_cases split: if_splits)


lemma degrees_values:
  "degrees 0 = 0" "degrees (pi / 2) = 90" "degrees pi = 180" "degrees (- (pi / 2)) = - 90"
  by (simp_all add: degrees_def)

lemma py_mod_360_values:
  "py_mod 360 360 = 0" "py_mod 450 360 = 90" "py_mod 540 360 = 180" "py_mod 270 360 = 270"
  by (simp_all add: py_mod_def)





subsection \<open>Rounding\<close>

lemma py_round_lower: "x - 1 / 2 \<le> of_int (py_round x)"
  unfolding py_round_def Let_def by (auto; linarith)

lemma py_round_upper: "of_int (py_round x) \<le> x + 1 / 2"
  unfolding py_round_def Let_def by (auto; linarith)

lemma py_round_unique:
  assumes "of_int k - 1 / 2 < x" "x < of_int k + 1 / 2"
  shows "py_round x = k"
proof -
  have "of_int (py_round x) < (of_int k + 1 :: real)"
    using py_round_upper [of x] assms by linarith
  moreover have "(of_int k - 1 :: real) < of_int (py_round x)"
    using py_round_lower [of x] assms by linarith
  ultimately have "py_round x < k + 1" "k - 1 < py_round x"
    by linarith+
  then show ?thesis by simp
qed




lemma py_round_nd_2_upper: "py_round_nd x 2 \<le> x + 5 / 1000"
  using py_round_upper [of "x * 100"] by (simp add: py_round_nd_def field_simps)

lemma py_round_nd_2_lower: "x - 5 / 1000 \<le> py_round_nd x 2"
  using py_round_lower [of "x * 100"] by (simp add: py_round_nd_def field_simps)

lemma py_round_nd_zero: "py_round_nd 0 n = 0"
  by (simp add: py_round_nd_def py_round_def)


subsection \<open>Proximity filter\<close>

lemma calculate_bearing_equator_east:
  assumes "0 < lon" "lon < 180"
  shows "calculate_bearing 0 0 0 lon = Inr 90"
proof -
  have "radians 0 < radians lon" "radians lon < radians 180"
    using assms by (intro radians_strict_mono; simp)+
  then have "0 < sin (radians lon)"
    by (intro sin_gt_zero) (simp_all add: radians_values radians_zero)
  then show ?thesis
    using assms
    by (simp add: calculate_bearing_cases float_overflow_bound radians_zero atan2_def
          degrees_values py_mod_360_values)
qed

lemma nearby_entry_cases:
  "nearby_entry c1 c2 loc lat lon R =
     (case calculate_distance c1 c2 lat lon of
        Inl e \<Rightarrow> Inl e
      | Inr d \<Rightarrow>
          if d \<le> R then
            (case calculate_bearing c1 c2 lat lon of
               Inl e \<Rightarrow> Inl e
             | Inr b \<Rightarrow> Inr (Some (attach loc d b)))
          else Inr None)"
  by (simp add: nearby_entry_def attach_def Let_def split: sum.split)

lemma collect_nearby_skip:
  "\<not> has_coordinates loc \<Longrightarrow>
     collect_nearby c1 c2 (loc # locs) R = collect_nearby c1 c2 locs R"
  by (auto simp: has_coordinates_def Let_def)

lemma collect_nearby_filter:
  "collect_nearby c1 c2 (filter has_coordinates locs) R = collect_nearby c1 c2 locs R"
proof (induction locs)
  case Nil
  show ?case by simp
next
  case (Cons loc locs)
  show ?case
  proof (cases "has_coordinates loc")
    case True
    then show ?thesis
      using Cons.IH by (simp add: Let_def has_coordinates_def split: sum.split)
  next
    case False
    then show ?thesis
      using Cons.IH by (simp add: collect_nearby_skip del: collect_nearby.simps)
  qed
qed

lemma collect_nearby_Cons:
  assumes "collect_nearby c1 c2 (loc # locs) R = Inr ys" "has_coordinates loc"
  obtains lat lon rest entry where
    "loc ''latitude'' = Some (PyNum lat)" "loc ''longitude'' = Some (PyNum lon)"
    "nearby_entry c1 c2 loc lat lon R = Inr entry"
    "collect_nearby c1 c2 locs R = Inr rest"
    "ys = (case entry of None \<Rightarrow> rest | Some x \<Rightarrow> x # rest)"
  using assms
  by (auto simp: has_coordinates_def dict_get_def to_float_def Let_def
           split: option.splits pyval.splits sum.splits)

lemma nearby_entry_Some:
  assumes "nearby_entry c1 c2 loc lat lon R = Inr (Some r)"
  obtains d b where "calculate_distance c1 c2 lat lon = Inr d" "d \<le> R"
    "calculate_bearing c1 c2 lat lon = Inr b" "r = attach loc d b"
  using assms by (auto simp: nearby_entry_cases split: sum.splits if_splits)

lemma collect_nearby_sound:
  "collect_nearby c1 c2 locs R = Inr ys \<Longrightarrow> r \<in> set ys \<Longrightarrow>
     \<exists>loc lat lon d b. loc \<in> set locs
        \<and> loc ''latitude'' = Some (PyNum lat) \<and> loc ''longitude'' = Some (PyNum lon)
        \<and> calculate_distance c1 c2 lat lon = Inr d \<and> d \<le> R
        \<and> calculate_bearing c1 c2 lat lon = Inr b
        \<and> r = attach loc d b"
proof (induction locs arbitrary: ys)
  case Nil
  then show ?case by simp
next
  case (Cons loc locs)
  show ?case
  proof (cases "has_coordinates loc")
    case False
    then have "collect_nearby c1 c2 locs R = Inr ys"
      using Cons.prems(1) by (simp add: collect_nearby_skip del: collect_nearby.simps)
    from Cons.IH [OF this Cons.prems(2)] show ?thesis by auto
  next
    case True
    obtain lat lon rest entry where
      lat: "loc ''latitude'' = Some (PyNum lat)" and lon: "loc ''longitude'' = Some (PyNum lon)"
      and e: "nearby_entry c1 c2 loc lat lon R = Inr entry"
      and rest: "collect_nearby c1 c2 locs R = Inr rest"
      and ys: "ys = (case entry of None \<Rightarrow> rest | Some x \<Rightarrow> x # rest)"
      by (rule collect_nearby_Cons [OF Cons.prems(1) True])
    show ?thesis
    proof (cases "r \<in> set rest")
      case True
      from Cons.IH [OF rest True] show ?thesis by auto
    next
      case False
      then have "entry = Some r"
        using ys Cons.prems(2) by (auto split: option.splits)
      then have "nearby_entry c1 c2 loc lat lon R = Inr (Some r)"
        using e by simp
      then obtain d b where "calculate_distance c1 c2 lat lon = Inr d" "d \<le> R"
        "calculate_bearing c1 c2 lat lon = Inr b" "r = attach loc d b"
        by (rule nearby_entry_Some)
      then show ?thesis using lat lon by auto
    qed
  qed
qed

lemma collect_nearby_complete:
  "collect_nearby c1 c2 locs R = Inr ys \<Longrightarrow> loc \<in> set locs \<Longrightarrow>
     loc ''latitude'' = Some (PyNum lat) \<Longrightarrow> loc ''longitude'' = Some (PyNum lon) \<Longrightarrow>
     calculate_distance c1 c2 lat lon = Inr d \<Longrightarrow> d \<le> R \<Longrightarrow>
     \<exists>b. calculate_bearing c1 c2 lat lon = Inr b \<and> attach loc d b \<in> set ys"
proof (induction locs arbitrary: ys)
  case Nil
  then show ?case by simp
next
  case (Cons l locs)
  show ?case
  proof (cases "has_coordinates l")
    case False
    then have c: "collect_nearby c1 c2 locs R = Inr ys"
      using Cons.prems(1) by (simp add: collect_nearby_skip del: collect_nearby.simps)
    have "loc \<noteq> l"
      using False Cons.prems(3,4) by (auto simp: has_coordinates_def dict_get_def)
    then have "loc \<in> set locs" using Cons.prems(2) by simp
    from Cons.IH [OF c this Cons.prems(3-6)] show ?thesis .
  next
    case True
    obtain lat' lon' rest entry where
      lat': "l ''latitude'' = Some (PyNum lat')" and lon': "l ''longitude'' = Some (PyNum lon')"
      and e: "nearby_entry c1 c2 l lat' lon' R = Inr entry"
      and rest: "collect_nearby c1 c2 locs R = Inr rest"
      and ys: "ys = (case entry of None \<Rightarrow> rest | Some x \<Rightarrow> x # rest)"
      by (rule collect_nearby_Cons [OF Cons.prems(1) True])
    have sub: "set rest \<subseteq> set ys"
      using ys by (auto split: option.splits)
    show ?thesis
    proof (cases "loc = l")
      case False
      then have "loc \<in> set locs" using Cons.prems(2) by simp
      from Cons.IH [OF rest this Cons.prems(3-6)] sub show ?thesis by blast
    next
      case True
      then have "lat' = lat" "lon' = lon"
        using lat' lon' Cons.prems(3,4) by simp_all
      then obtain b where b: "calculate_bearing c1 c2 lat lon = Inr b"
        "entry = Some (attach l d b)"
        using e Cons.prems(5,6)
        by (auto simp: nearby_entry_cases split: sum.splits if_splits)
      then have "attach loc d b \<in> set ys"
        using ys True by simp
      with b(1) show ?thesis by blast
    qed
  qed
qed

lemma distance_key_attach: "distance_key (attach loc d b) = py_round_nd d 2"
  by (simp add: distance_key_def attach_def)

lemma attach_fields:
  "attach loc d b ''distance_km'' = Some (PyNum (py_round_nd d 2))"
  "attach loc d b ''latitude'' = loc ''latitude''"
  "attach loc d b ''longitude'' = loc ''longitude''"
  by (simp_all add: attach_def)

lemma find_nearby_Inr:
  "find_nearby c1 c2 locs R = Inr res \<longleftrightarrow>
     (\<exists>nearby. collect_nearby c1 c2 locs R = Inr nearby \<and> res = sort_key distance_key nearby)"
  by (auto simp: find_nearby_def split: sum.splits)

lemma find_nearby_filter:
  "find_nearby c1 c2 (filter has_coordinates locs) R = find_nearby c1 c2 locs R"
  by (simp add: find_nearby_def collect_nearby_filter)

lemma equator_sample_bounds:
  "5 / 1000 < earth_radius_km * radians (63 / 1000000)"
  "earth_radius_km * radians (63 / 1000000) < 9 / 1000"
  using pi_ge_three pi_less_4 by (simp_all add: earth_radius_km_def radians_def)

lemma equator_sample_round:
  "py_round_nd (earth_radius_km * radians (63 / 1000000)) 2 = 1 / 100"
proof -
  have "py_round (earth_radius_km * radians (63 / 1000000) * 100) = 1"
    using equator_sample_bounds by (intro py_round_unique) simp_all
  then show ?thesis by (simp add: py_round_nd_def)
qed

text \<open>
  The filter compares the unrounded distance with the radius and then stores the
  distance rounded to two decimals. A candidate about 0.007 km from the centre is kept
  for the radius 0.009 km and carries \<open>distance_km = 0.01\<close>, which is more than the
  radius.
\<close>

theorem find_nearby_rounded_exceeds_radius:
  "(case find_nearby 0 0 [[''latitude'' \<mapsto> PyNum 0, ''longitude'' \<mapsto> PyNum (63 / 1000000)]] (9 / 1000) of
      Inl e \<Rightarrow> False
    | Inr res \<Rightarrow> map (\<lambda>r. r ''distance_km'') res = [Some (PyNum (1 / 100))])
   \<and> \<not> (1 / 100 \<le> (9 / 1000 :: real))"
  using equator_sample_bounds(2)
  by (simp add: find_nearby_def dict_get_def to_float_def nearby_entry_cases attach_def
        calculate_distance_equator calculate_bearing_equator_east equator_sample_round Let_def)

lemma collect_nearby_no_coordinates:
  "\<forall>loc \<in> set locs. \<not> has_coordinates loc \<Longrightarrow> collect_nearby c1 c2 locs R = Inr []"
  by (induction locs) (simp_all add: collect_nearby_skip del: collect_nearby.simps(2))

lemma collect_nearby_single:
  assumes "loc ''latitude'' = Some (PyNum lat)" "loc ''longitude'' = Some (PyNum lon)"
    and "calculate_distance c1 c2 lat lon = Inr d" "d \<le> R"
    and "calculate_bearing c1 c2 lat lon = Inr b"
  shows "collect_nearby c1 c2 [loc] R = Inr [attach loc d b]"
  using assms by (simp add: dict_get_def to_float_def nearby_entry_cases Let_def)

text \<open>
  Claim C3, amended. Every returned record comes from a candidate with numeric
  coordinates whose unrounded distance \<open>d\<close> from the centre is at most the radius; its
  field \<open>distance_km\<close> is \<open>d\<close> rounded to two decimals, hence at most the radius plus
  0.005. The boundary is inclusive: a candidate at distance exactly the radius is kept,
  alone or among other candidates. Candidates without a latitude or a longitude change
  nothing: the call returns what it returns on the list without them, and the empty
  list if no candidate has coordinates.
\<close>

theorem find_nearby_within_radius:
  "(find_nearby c1 c2 locs R = Inr res \<longrightarrow>
      (\<forall>r \<in> set res. \<exists>lat lon d.
          r ''latitude'' = Some (PyNum lat) \<and> r ''longitude'' = Some (PyNum lon)
          \<and> calculate_distance c1 c2 lat lon = Inr d \<and> d \<le> R
          \<and> r ''distance_km'' = Some (PyNum (py_round_nd d 2))
          \<and> py_round_nd d 2 \<le> R + 5 / 1000))
   \<and> (loc ''latitude'' = Some (PyNum lat0) \<and> loc ''longitude'' = Some (PyNum lon0)
        \<and> calculate_distance c1 c2 lat0 lon0 = Inr R \<longrightarrow>
      (\<exists>b. calculate_bearing c1 c2 lat0 lon0 = Inr b
           \<and> find_nearby c1 c2 [loc] R = Inr [attach loc R b]))
   \<and> (find_nearby c1 c2 locs R = Inr res \<and> loc \<in> set locs
        \<and> loc ''latitude'' = Some (PyNum lat0) \<and> loc ''longitude'' = Some (PyNum lon0)
        \<and> calculate_distance c1 c2 lat0 lon0 = Inr R \<longrightarrow>
      (\<exists>b. calculate_bearing c1 c2 lat0 lon0 = Inr b \<and> attach loc R b \<in> set res))
   \<and> find_nearby c1 c2 (filter has_coordinates locs) R = find_nearby c1 c2 locs R
   \<and> ((\<forall>l \<in> set locs. \<not> has_coordinates l) \<longrightarrow> find_nearby c1 c2 locs R = Inr [])"
proof (intro conjI impI ballI)
  fix r
  assume res: "find_nearby c1 c2 locs R = Inr res" and r: "r \<in> set res"
  then obtain nearby where n: "collect_nearby c1 c2 locs R = Inr nearby"
    and s: "res = sort_key distance_key nearby"
    by (auto simp: find_nearby_Inr)
  then have "r \<in> set nearby" using r by simp
  from collect_nearby_sound [OF n this]
  obtain l lat lon d b where l: "l \<in> set locs"
    "l ''latitude'' = Some (PyNum lat)" "l ''longitude'' = Some (PyNum lon)"
    "calculate_distance c1 c2 lat lon = Inr d" "d \<le> R"
    "r = attach l d b"
    by blast
  have "py_round_nd d 2 \<le> R + 5 / 1000"
    using py_round_nd_2_upper [of d] l(5) by linarith
  then show "\<exists>lat lon d.
          r ''latitude'' = Some (PyNum lat) \<and> r ''longitude'' = Some (PyNum lon)
          \<and> calculate_distance c1 c2 lat lon = Inr d \<and> d \<le> R
          \<and> r ''distance_km'' = Some (PyNum (py_round_nd d 2))
          \<and> py_round_nd d 2 \<le> R + 5 / 1000"
    using l by (auto simp: attach_fields)
next
  assume a: "loc ''latitude'' = Some (PyNum lat0) \<and> loc ''longitude'' = Some (PyNum lon0)
        \<and> calculate_distance c1 c2 lat0 lon0 = Inr R"
  then obtain b where b: "calculate_bearing c1 c2 lat0 lon0 = Inr b"
    using bearing_of_distance by blast
  have "find_nearby c1 c2 [loc] R = Inr [attach loc R b]"
    using a b by (simp add: find_nearby_def collect_nearby_single del: collect_nearby.simps)
  with b show "\<exists>b. calculate_bearing c1 c2 lat0 lon0 = Inr b
           \<and> find_nearby c1 c2 [loc] R = Inr [attach loc R b]"
    by blast
next
  assume a: "find_nearby c1 c2 locs R = Inr res \<and> loc \<in> set locs
        \<and> loc ''latitude'' = Some (PyNum lat0) \<and> loc ''longitude'' = Some (PyNum lon0)
        \<and> calculate_distance c1 c2 lat0 lon0 = Inr R"
  then obtain nearby where n: "collect_nearby c1 c2 locs R = Inr nearby"
    and s: "res = sort_key distance_key nearby"
    by (auto simp: find_nearby_Inr)
  from collect_nearby_complete [OF n, of loc lat0 lon0 R] a
  obtain b where "calculate_bearing c1 c2 lat0 lon0 = Inr b" "attach loc R b \<in> set nearby"
    by auto
  then show "\<exists>b. calculate_bearing c1 c2 lat0 lon0 = Inr b \<and> attach loc R b \<in> set res"
    using s by auto
next
  show "find_nearby c1 c2 (filter has_coordinates locs) R = find_nearby c1 c2 locs R"
    by (rule find_nearby_filter)
next
  assume "\<forall>l \<in> set locs. \<not> has_coordinates l"
  then show "find_nearby c1 c2 locs R = Inr []"
    by (simp add: find_nearby_def collect_nearby_no_coordinates)
qed

lemma find_nearby_sample:
  "find_nearby 0 0 [[''name'' \<mapsto> PyStr ''depot''],
                    [''latitude'' \<mapsto> PyNum 0, ''longitude'' \<mapsto> PyNum 0]] 5
     = Inr [attach [''latitude'' \<mapsto> PyNum 0, ''longitude'' \<mapsto> PyNum 0] 0 0]"
  by (simp add: find_nearby_def dict_get_def to_float_def nearby_entry_cases
        calculate_distance_same calculate_bearing_same Let_def)

theorem find_nearby_within_radius_witness:
  "find_nearby 0 0 [[''name'' \<mapsto> PyStr ''depot''],
                    [''latitude'' \<mapsto> PyNum 0, ''longitude'' \<mapsto> PyNum 0]] 5
     = Inr [attach [''latitude'' \<mapsto> PyNum 0, ''longitude'' \<mapsto> PyNum 0] 0 0]
   \<and> (\<exists>d. attach [''latitude'' \<mapsto> PyNum 0, ''longitude'' \<mapsto> PyNum 0] 0 0 ''distance_km''
              = Some (PyNum (py_round_nd d 2)) \<and> d \<le> 5 \<and> py_round_nd d 2 \<le> 5 + 5 / 1000)
   \<and> find_nearby 0 0 [[''name'' \<mapsto> PyStr ''depot'']] 5 = Inr []"
proof -
  let ?L = "[[''name'' \<mapsto> PyStr ''depot''],
             [''latitude'' \<mapsto> PyNum 0, ''longitude'' \<mapsto> PyNum (0::real)]]"
  let ?r = "attach [''latitude'' \<mapsto> PyNum 0, ''longitude'' \<mapsto> PyNum 0] 0 0"
  have h: "find_nearby 0 0 ?L 5 = Inr [?r]" by (rule find_nearby_sample)
  have "\<forall>r \<in> set [?r]. \<exists>lat lon d.
          r ''latitude'' = Some (PyNum lat) \<and> r ''longitude'' = Some (PyNum lon)
          \<and> calculate_distance 0 0 lat lon = Inr d \<and> d \<le> 5
          \<and> r ''distance_km'' = Some (PyNum (py_round_nd d 2))
          \<and> py_round_nd d 2 \<le> 5 + 5 / 1000"
    using find_nearby_within_radius [of 0 0 ?L 5 "[?r]"] h by blast
  then have a: "\<exists>d. ?r ''distance_km'' = Some (PyNum (py_round_nd d 2)) \<and> d \<le> 5
                   \<and> py_round_nd d 2 \<le> 5 + 5 / 1000"
    by auto
  have "\<forall>l \<in> set [[''name'' \<mapsto> PyStr ''depot'']]. \<not> has_coordinates l"
    by (simp add: has_coordinates_def dict_get_def)
  then have b: "find_nearby 0 0 [[''name'' \<mapsto> PyStr ''depot'']] 5 = Inr []"
    using find_nearby_within_radius [of 0 0 "[[''name'' \<mapsto> PyStr ''depot'']]" 5] by blast
  show ?thesis using h a b by blast
qed

lemma collect_nearby_keys:
  "collect_nearby c1 c2 locs R = Inr ys \<Longrightarrow> r \<in> set ys \<Longrightarrow>
     r ''distance_km'' = Some (PyNum (distance_key r))"
  using collect_nearby_sound [of c1 c2 locs R ys r]
  by (auto simp: attach_fields distance_key_attach)

lemma collect_nearby_append:
  "collect_nearby c1 c2 (xs @ ys) R =
     (case collect_nearby c1 c2 xs R of
        Inl e \<Rightarrow> Inl e
      | Inr as \<Rightarrow>
          (case collect_nearby c1 c2 ys R of
             Inl e \<Rightarrow> Inl e
           | Inr bs \<Rightarrow> Inr (as @ bs)))"
  by (induction xs) (auto simp: Let_def split: sum.splits option.splits)

lemma collect_nearby_order:
  "collect_nearby c1 c2 locs R = Inr ys \<Longrightarrow>
     \<exists>kept. subseq kept locs \<and> list_all2 (\<lambda>r l. \<exists>d b. r = attach l d b) ys kept"
proof (induction locs arbitrary: ys)
  case Nil
  then show ?case by simp
next
  case (Cons loc locs)
  show ?case
  proof (cases "has_coordinates loc")
    case False
    then have "collect_nearby c1 c2 locs R = Inr ys"
      using Cons.prems by (simp add: collect_nearby_skip del: collect_nearby.simps)
    from Cons.IH [OF this] show ?thesis by auto
  next
    case True
    obtain lat lon rest entry where
      lat: "loc ''latitude'' = Some (PyNum lat)" and lon: "loc ''longitude'' = Some (PyNum lon)"
      and e: "nearby_entry c1 c2 loc lat lon R = Inr entry"
      and rest: "collect_nearby c1 c2 locs R = Inr rest"
      and ys: "ys = (case entry of None \<Rightarrow> rest | Some x \<Rightarrow> x # rest)"
      by (rule collect_nearby_Cons [OF Cons.prems True])
    from Cons.IH [OF rest] obtain kept where
      k: "subseq kept locs" "list_all2 (\<lambda>r l. \<exists>d b. r = attach l d b) rest kept"
      by blast
    show ?thesis
    proof (cases entry)
      case None
      then show ?thesis using k ys by auto
    next
      case (Some r)
      then have "nearby_entry c1 c2 loc lat lon R = Inr (Some r)"
        using e by simp
      then have "\<exists>d b. r = attach loc d b"
        by (rule nearby_entry_Some) blast
      then have "list_all2 (\<lambda>r l. \<exists>d b. r = attach l d b) ys (loc # kept)"
        using k(2) ys Some by simp
      moreover have "subseq (loc # kept) (loc # locs)" using k(1) by simp
      ultimately show ?thesis by blast
    qed
  qed
qed

text \<open>
  Claim C4. The returned list is sorted ascending by the attached \<open>distance_km\<close>
  (which \<open>distance_key\<close> reads from every record), and the sort is stable. The list
  \<open>nearby\<close> that the loop collects holds the records built from the kept candidates
  \<open>kept\<close>, a subsequence of the input in the order of the input; for each key, the
  records of the result with that key are the records of \<open>nearby\<close> with that key, in
  the same order.
\<close>

theorem find_nearby_sorted_stable:
  assumes "find_nearby c1 c2 locs R = Inr res"
  shows "sorted (map distance_key res)
         \<and> (\<forall>r \<in> set res. r ''distance_km'' = Some (PyNum (distance_key r)))
         \<and> (\<exists>nearby kept. collect_nearby c1 c2 locs R = Inr nearby
               \<and> subseq kept locs
               \<and> list_all2 (\<lambda>r l. \<exists>d b. r = attach l d b) nearby kept
               \<and> set res = set nearby \<and> length res = length nearby
               \<and> (\<forall>k. filter (\<lambda>r. distance_key r = k) res
                        = filter (\<lambda>r. distance_key r = k) nearby))"
proof -
  obtain nearby where n: "collect_nearby c1 c2 locs R = Inr nearby"
    and s: "res = sort_key distance_key nearby"
    using assms by (auto simp: find_nearby_Inr)
  obtain kept where k: "subseq kept locs"
    "list_all2 (\<lambda>r l. \<exists>d b. r = attach l d b) nearby kept"
    using collect_nearby_order [OF n] by blast
  have "sorted (map distance_key res)"
    by (simp add: s)
  moreover have "\<forall>r \<in> set res. r ''distance_km'' = Some (PyNum (distance_key r))"
    using collect_nearby_keys [OF n] by (simp add: s)
  moreover have "\<forall>k. filter (\<lambda>r. distance_key r = k) res
                     = filter (\<lambda>r. distance_key r = k) nearby"
    by (simp add: s sort_key_stable)
  moreover have "set res = set nearby" "length res = length nearby"
    by (simp_all add: s)
  ultimately show ?thesis
    using n k by blast
qed

lemma find_nearby_ties:
  "find_nearby 0 0
     [[''name'' \<mapsto> PyStr ''far'', ''latitude'' \<mapsto> PyNum 0, ''longitude'' \<mapsto> PyNum (63 / 1000000)],
      [''name'' \<mapsto> PyStr ''first'', ''latitude'' \<mapsto> PyNum 0, ''longitude'' \<mapsto> PyNum 0],
      [''name'' \<mapsto> PyStr ''second'', ''latitude'' \<mapsto> PyNum 0, ''longitude'' \<mapsto> PyNum 0]] 1
   = Inr
     [attach [''name'' \<mapsto> PyStr ''first'', ''latitude'' \<mapsto> PyNum 0, ''longitude'' \<mapsto> PyNum 0] 0 0,
      attach [''name'' \<mapsto> PyStr ''second'', ''latitude'' \<mapsto> PyNum 0, ''longitude'' \<mapsto> PyNum 0] 0 0,
      attach [''name'' \<mapsto> PyStr ''far'', ''latitude'' \<mapsto> PyNum 0, ''longitude'' \<mapsto> PyNum (63 / 1000000)]
        (earth_radius_km * radians (63 / 1000000)) 90]"
proof -
  have le: "earth_radius_km * radians (63 / 1000000) \<le> 1"
    using equator_sample_bounds(2) by linarith
  show ?thesis
    using le
    by (simp add: find_nearby_def dict_get_def to_float_def nearby_entry_cases
          calculate_distance_same calculate_bearing_same calculate_distance_equator
          calculate_bearing_equator_east
          distance_key_attach equator_sample_round py_round_nd_zero Let_def)
qed

theorem find_nearby_sorted_stable_witness:
  "map (\<lambda>r. (r ''name'', distance_key r))
     (projr (find_nearby 0 0
       [[''name'' \<mapsto> PyStr ''far'', ''latitude'' \<mapsto> PyNum 0, ''longitude'' \<mapsto> PyNum (63 / 1000000)],
        [''name'' \<mapsto> PyStr ''first'', ''latitude'' \<mapsto> PyNum 0, ''longitude'' \<mapsto> PyNum 0],
        [''name'' \<mapsto> PyStr ''second'', ''latitude'' \<mapsto> PyNum 0, ''longitude'' \<mapsto> PyNum 0]] 1))
     = [(Some (PyStr ''first''), 0), (Some (PyStr ''second''), 0), (Some (PyStr ''far''), 1 / 100)]
   \<and> sorted (map distance_key (projr (find_nearby 0 0
       [[''name'' \<mapsto> PyStr ''far'', ''latitude'' \<mapsto> PyNum 0, ''longitude'' \<mapsto> PyNum (63 / 1000000)],
        [''name'' \<mapsto> PyStr ''first'', ''latitude'' \<mapsto> PyNum 0, ''longitude'' \<mapsto> PyNum 0],
        [''name'' \<mapsto> PyStr ''second'', ''latitude'' \<mapsto> PyNum 0, ''longitude'' \<mapsto> PyNum 0]] 1)))"
proof -
  note h = find_nearby_ties
  have "sorted (map distance_key (projr (find_nearby 0 0
       [[''name'' \<mapsto> PyStr ''far'', ''latitude'' \<mapsto> PyNum 0, ''longitude'' \<mapsto> PyNum (63 / 1000000)],
        [''name'' \<mapsto> PyStr ''first'', ''latitude'' \<mapsto> PyNum 0, ''longitude'' \<mapsto> PyNum 0],
        [''name'' \<mapsto> PyStr ''second'', ''latitude'' \<mapsto> PyNum 0, ''longitude'' \<mapsto> PyNum 0]] 1)))"
    using find_nearby_sorted_stable [OF h] by (simp only: h sum.sel)
  moreover have "map (\<lambda>r. (r ''name'', distance_key r))
     (projr (find_nearby 0 0
       [[''name'' \<mapsto> PyStr ''far'', ''latitude'' \<mapsto> PyNum 0, ''longitude'' \<mapsto> PyNum (63 / 1000000)],
        [''name'' \<mapsto> PyStr ''first'', ''latitude'' \<mapsto> PyNum 0, ''longitude'' \<mapsto> PyNum 0],
        [''name'' \<mapsto> PyStr ''second'', ''latitude'' \<mapsto> PyNum 0, ''longitude'' \<mapsto> PyNum 0]] 1))
     = [(Some (PyStr ''first''), 0), (Some (PyStr ''second''), 0), (Some (PyStr ''far''), 1 / 100)]"
    unfolding h by (simp add: distance_key_attach equator_sample_round py_round_nd_zero) (simp add: attach_def)
  ultimately show ?thesis by (rule_tac conjI)
qed

subsection \<open>Route estimate\<close>












subsection \<open>Distance matrix\<close>












end
